theory Spec2Isabelle
  imports Main
begin

section \<open>Option values\<close>

text \<open>
  Component options are JSON-like JavaScript values. An object is an association list in
  insertion order, which is the order of \<^verbatim>\<open>for (key in obj)\<close>. Numbers are opaque to
  every function of model/Component.ts (none of them computes with a number), so they
  are carried as integers.
\<close>

datatype jv =
    JUndefined
  | JNull
  | JBool bool
  | JNum int
  | JStr string
  | JArr "jv list"
  | JObj "(string \<times> jv) list"

type_synonym fields = "(string \<times> jv) list"

text \<open>JavaScript truthiness, as used by \<^verbatim>\<open>opt && optList.push(opt)\<close>.\<close>

fun truthy :: "jv \<Rightarrow> bool" where
  "truthy JUndefined = False"
| "truthy JNull = False"
| "truthy (JBool b) = b"
| "truthy (JNum n) = (n \<noteq> 0)"
| "truthy (JStr s) = (s \<noteq> [])"
| "truthy (JArr xs) = True"
| "truthy (JObj fs) = True"

text \<open>A value that \<^verbatim>\<open>merge\<close> recurses into: an object that is not an array.\<close>

fun isPlainObject :: "jv \<Rightarrow> bool" where
  "isPlainObject (JObj fs) = True"
| "isPlainObject v = False"

text \<open>\<^verbatim>\<open>obj[key]\<close> on a value: \<open>None\<close> stands for "not an own property".\<close>

fun field :: "jv \<Rightarrow> string \<Rightarrow> jv option" where
  "field (JObj fs) k = map_of fs k"
| "field v k = None"

text \<open>\<^verbatim>\<open>target[key] = v\<close>: an existing key keeps its place, a new key goes last.\<close>

fun setField :: "string \<Rightarrow> jv \<Rightarrow> fields \<Rightarrow> fields" where
  "setField k v [] = [(k, v)]"
| "setField k v ((k', v') # fs) =
     (if k' = k then (k, v) # fs else (k', v') # setField k v fs)"

text \<open>
  Modelled from the spec: \<^verbatim>\<open>zrUtil.merge(target, source, overwrite)\<close> of the package zrender
  lies outside model/Component.ts. The spec names it "a generic recursive merge primitive
  deepMerge(target, source, overwrite: bool)" that is "recursive on nested objects, arrays
  are replaced wholesale (never concatenated)". For every own key of the source, in order:
  when both sides hold a non-array object the merge recurses into them; otherwise the
  source's value is stored when \<open>overwrite\<close> is set or the target has no such key. When
  one of the two operands is not an object the result is the source under \<open>overwrite\<close>
  and the target otherwise. The copies made by \<^verbatim>\<open>clone\<close> are the values themselves here.
\<close>

function merge :: "jv \<Rightarrow> jv \<Rightarrow> bool \<Rightarrow> jv"
  and mergeFields :: "fields \<Rightarrow> fields \<Rightarrow> bool \<Rightarrow> fields" where
  "merge target source overwrite =
     (case (target, source) of
        (JObj t, JObj s) \<Rightarrow> JObj (mergeFields t s overwrite)
      | _ \<Rightarrow> if overwrite then source else target)"
| "mergeFields t [] overwrite = t"
| "mergeFields t ((key, sourceProp) # rest) overwrite =
     mergeFields
       (case map_of t key of
          Some targetProp \<Rightarrow>
            if isPlainObject sourceProp \<and> isPlainObject targetProp
            then setField key (merge targetProp sourceProp overwrite) t
            else if overwrite then setField key sourceProp t else t
        | None \<Rightarrow> setField key sourceProp t)
       rest overwrite"
  by pat_completeness auto
termination
  by (relation "measure (\<lambda>x. case x of
        Inl (t, s, ow) \<Rightarrow> 2 * size s
      | Inr (t, s, ow) \<Rightarrow> 2 * size_list (size_prod (\<lambda>_. 0) size) s + 1)") auto

text \<open>
  The state of the target object after a call \<^verbatim>\<open>zrUtil.merge(target, source, overwrite);\<close>
  whose return value is dropped: only an object target merged with an object source is
  changed in place.
\<close>

definition mergeInto :: "jv \<Rightarrow> jv \<Rightarrow> bool \<Rightarrow> jv" where
  "mergeInto target source overwrite =
     (if isPlainObject target \<and> isPlainObject source
      then merge target source overwrite else target)"

text \<open>\<^verbatim>\<open>obj[key]\<close> read as a value: a missing property reads as \<^verbatim>\<open>undefined\<close>.\<close>

definition getProp :: "jv \<Rightarrow> string \<Rightarrow> jv" where
  "getProp obj key = (case field obj key of Some v \<Rightarrow> v | None \<Rightarrow> JUndefined)"

text \<open>Own keys are distinct in every JavaScript object.\<close>

fun keysDistinct :: "jv \<Rightarrow> bool" where
  "keysDistinct (JObj fs) = distinct (map fst fs)"
| "keysDistinct v = True"

section \<open>Classes and the registry\<close>

text \<open>
  The identity fields that a class declares on its own prototype, \<open>None\<close> for a field it
  does not declare. "Public and protected fields must be initialized on prototype rather
  than in constructor", so that a field a subclass overrides is not overwritten.
\<close>

record identityDecl =
  declType :: "string option"
  declId :: "string option"
  declName :: "string option"
  declMainType :: "string option"
  declSubType :: "string option"
  declComponentIndex :: "int option"

definition noIdentity :: identityDecl where
  "noIdentity =
     \<lparr> declType = None, declId = None, declName = None, declMainType = None,
       declSubType = None, declComponentIndex = None \<rparr>"

text \<open>
  How a class declares \<^verbatim>\<open>defaultOption\<close>: not at all; on its prototype, where
  \<^verbatim>\<open>extend\<close> puts the properties it is given; or as a class field
  (\<^verbatim>\<open>readonly defaultOption: XxxOption = {aaa: 123}\<close>, way (A) of the comment on
  \<^verbatim>\<open>getDefaultOption\<close>), which the constructor assigns to each new instance, so that the
  prototype holds nothing.
\<close>

datatype defaultDecl = NoDefault | ProtoDefault jv | FieldDefault jv

text \<open>
  A constructor, as far as this file reads it: the identity fields and the
  \<^verbatim>\<open>defaultOption\<close> it declares, the \<^verbatim>\<open>dependencies\<close> declared on its own prototype
  (\<open>None\<close> when not declared), the mark that \<^verbatim>\<open>isExtendedClass\<close> of util/clazz tests,
  and \<^verbatim>\<open>superClass\<close>. A property read on \<^verbatim>\<open>clz.prototype\<close> follows the prototype chain,
  which \<^verbatim>\<open>extend\<close> lays along \<^verbatim>\<open>superClass\<close>.
\<close>

datatype clazz =
  Clazz (ownIdentity: identityDecl) (ownDefault: defaultDecl)
        (ownDependencies: "string list option")
        (isExtendedClass: bool) (superClass: "clazz option")

fun protoDefaultOption :: "clazz \<Rightarrow> jv" where
  "protoDefaultOption (Clazz own d deps ext base) =
     (case d of
        ProtoDefault v \<Rightarrow> v
      | _ \<Rightarrow> (case base of Some s \<Rightarrow> protoDefaultOption s | None \<Rightarrow> JUndefined))"

fun protoDependencies :: "clazz \<Rightarrow> string list option" where
  "protoDependencies (Clazz own d deps ext base) =
     (case deps of
        Some ds \<Rightarrow> Some ds
      | None \<Rightarrow> (case base of Some s \<Rightarrow> protoDependencies s | None \<Rightarrow> None))"

record parsedClassType =
  main :: string
  sub :: string

text \<open>
  Modelled from the spec: \<^verbatim>\<open>parseClassType\<close> of util/clazz lies outside
  model/Component.ts. A component type identifier is "a string of the form "main" or
  "main.sub""; parsing is "pure and total", and a missing part becomes the wildcard, which
  is written as the empty string here.
\<close>

definition parseClassType :: "string \<Rightarrow> parsedClassType" where
  "parseClassType componentType =
     \<lparr> main = takeWhile (\<lambda>c. c \<noteq> CHR ''.'') componentType,
       sub = takeWhile (\<lambda>c. c \<noteq> CHR ''.'')
               (drop 1 (dropWhile (\<lambda>c. c \<noteq> CHR ''.'') componentType)) \<rparr>"

text \<open>\<^verbatim>\<open>zrUtil.indexOf\<close>: the first index holding the value, \<open>-1\<close> when there is none.\<close>

fun indexOf :: "'a list \<Rightarrow> 'a \<Rightarrow> int" where
  "indexOf [] value = - 1"
| "indexOf (x # xs) value =
     (if x = value then 0
      else (let i = indexOf xs value in if i < 0 then - 1 else i + 1))"

datatype error = TypeError

text \<open>
  The loop \<^verbatim>\<open>zrUtil.each(getClassesByMainType(componentType), function (clz) {...})\<close>.
  An entry of the array may be \<^verbatim>\<open>undefined\<close> (\<open>None\<close>): the body reads
  \<^verbatim>\<open>clz.prototype\<close> with no guard, and on \<^verbatim>\<open>undefined\<close> that read throws a TypeError.
\<close>

fun eachClass :: "clazz option list \<Rightarrow> string list \<Rightarrow> error + string list" where
  "eachClass [] deps = Inr deps"
| "eachClass (None # rest) deps = Inl TypeError"
| "eachClass (Some clz # rest) deps =
     eachClass rest (deps @ (case protoDependencies clz of Some ds \<Rightarrow> ds | None \<Rightarrow> []))"

text \<open>
  \<^verbatim>\<open>getDependencies\<close>. The registry lookup \<^verbatim>\<open>getClassesByMainType\<close> is mounted by
  \<^verbatim>\<open>enableClassManagement\<close> of util/clazz, which lies outside model/Component.ts; it is
  a parameter here. For a registered main type it yields, as the spec has it, "every
  constructor registered under main, across all subtypes, in registration order"; for a
  main type with nothing registered the registry of util/clazz hands back an array that
  holds \<^verbatim>\<open>undefined\<close>.
\<close>

definition getDependencies ::
  "(string \<Rightarrow> clazz option list) \<Rightarrow> string \<Rightarrow> error + string list" where
  "getDependencies getClassesByMainType componentType =
     (case eachClass (getClassesByMainType componentType) [] of
        Inl e \<Rightarrow> Inl e
      | Inr deps \<Rightarrow>
          (let deps = map (\<lambda>type. main (parseClassType type)) deps
           in Inr (if componentType \<noteq> ''dataset'' \<and> indexOf deps ''dataset'' \<le> 0
                   then ''dataset'' # deps
                   else deps)))"

section \<open>The component model\<close>

text \<open>\<^verbatim>\<open>layoutMode: string | {ignoreSize: boolean}\<close>, and its truthiness when absent.\<close>

datatype layoutMode = LayoutName string | LayoutFlags (ignoreSize: bool)

fun declared :: "layoutMode option \<Rightarrow> bool" where
  "declared None = False"
| "declared (Some (LayoutName s)) = (s \<noteq> [])"
| "declared (Some (LayoutFlags b)) = True"

text \<open>
  The global model is read through \<^verbatim>\<open>ecModel.getTheme().get(mainType)\<close> only; the theme is
  an external source "consumed only through a get(key) -> value lookup interface".
\<close>

record globalModel =
  themeGet :: "string \<Rightarrow> jv"

text \<open>The fields that \<^verbatim>\<open>protoInitialize\<close> puts on \<^verbatim>\<open>ComponentModel.prototype\<close>.\<close>

record componentProto =
  type :: string
  ident :: string
  name :: string
  mainType :: string
  subType :: string
  componentIndex :: int

definition protoInitialize :: componentProto where
  "protoInitialize =
     \<lparr> type = ''component'', ident = '''', name = '''', mainType = '''', subType = '''',
       componentIndex = 0 \<rparr>"

text \<open>
  An instance reads the prototype's fields until they are assigned on the instance, so it
  extends the prototype record. \<open>ident\<close> is the field \<^verbatim>\<open>id\<close>. \<open>ctor\<close> is
  \<^verbatim>\<open>this.constructor\<close>; \<open>layoutMode\<close> is found on the prototype of the concrete class.
  \<open>optionUpdatedOverride\<close> is the body a subclass gives to the hook \<^verbatim>\<open>optionUpdated\<close>,
  as an update of the instance's option. Component models in \<open>dependentModels\<close> are named by
  their \<open>uid\<close>.
\<close>

record componentModel = componentProto +
  option :: jv
  ecModel :: globalModel
  uid :: string
  dependentModels :: "(string \<times> string list) list"
  layoutMode :: "layoutMode option"
  ctor :: clazz
  optionUpdatedOverride :: "(jv \<Rightarrow> bool \<Rightarrow> jv \<Rightarrow> jv) option"

text \<open>
  What an instance of a class reads for an identity field it has not been assigned: the
  value declared nearest on the prototype chain of its class, and at the end of the chain
  the value that \<^verbatim>\<open>protoInitialize\<close> put on \<^verbatim>\<open>ComponentModel.prototype\<close>.
\<close>

fun protoIdentity :: "clazz \<Rightarrow> componentProto" where
  "protoIdentity (Clazz own d deps ext base) =
     (let inherited = (case base of Some clz \<Rightarrow> protoIdentity clz | None \<Rightarrow> protoInitialize)
      in \<lparr> type = (case declType own of Some v \<Rightarrow> v | None \<Rightarrow> type inherited),
           ident = (case declId own of Some v \<Rightarrow> v | None \<Rightarrow> ident inherited),
           name = (case declName own of Some v \<Rightarrow> v | None \<Rightarrow> name inherited),
           mainType = (case declMainType own of Some v \<Rightarrow> v | None \<Rightarrow> mainType inherited),
           subType = (case declSubType own of Some v \<Rightarrow> v | None \<Rightarrow> subType inherited),
           componentIndex = (case declComponentIndex own of
                               Some v \<Rightarrow> v | None \<Rightarrow> componentIndex inherited) \<rparr>)"

text \<open>
  The constructor: \<^verbatim>\<open>super(option, parentModel, ecModel)\<close> keeps the option and the global
  model, the field initialiser sets \<^verbatim>\<open>dependentModels = {}\<close>, and \<^verbatim>\<open>uid\<close> is what
  \<^verbatim>\<open>componentUtil.getUID\<close> hands out (a parameter). The identity fields are those found
  on the prototype chain of the class; its layout mode and its body of the hook are
  parameters.
\<close>

definition newComponentModel ::
  "clazz \<Rightarrow> layoutMode option \<Rightarrow> (jv \<Rightarrow> bool \<Rightarrow> jv \<Rightarrow> jv) option \<Rightarrow>
   jv \<Rightarrow> globalModel \<Rightarrow> string \<Rightarrow> componentModel" where
  "newComponentModel cls lm hook opt ecm newUid =
     componentProto.extend (protoIdentity cls)
       (componentModel.fields opt ecm newUid [] lm cls hook)"

section \<open>Default options\<close>

text \<open>
  The function \<^verbatim>\<open>inner\<close> is made by \<^verbatim>\<open>makeInner\<close> of util/model, which lies outside
  model/Component.ts: it hands out the private field record of the host object it is
  given, and
  \<^verbatim>\<open>getDefaultOption\<close> gives it \<^verbatim>\<open>this\<close>. The store of these records is the state that
  \<^verbatim>\<open>getDefaultOption\<close> reads and writes; it maps a host, named by its \<open>uid\<close>, to its
  \<^verbatim>\<open>fields.defaultOption\<close>, which is \<^verbatim>\<open>undefined\<close> until it is set.
\<close>

type_synonym innerStore = "string \<Rightarrow> jv"

definition inner :: "innerStore \<Rightarrow> componentModel \<Rightarrow> jv" where
  "inner st this = st (uid this)"

definition emptyInner :: innerStore where
  "emptyInner = (\<lambda>host. JUndefined)"

text \<open>The \<^verbatim>\<open>while (clz)\<close> loop: the truthy default options from the class up its chain.\<close>

fun collectOptList :: "clazz \<Rightarrow> jv list" where
  "collectOptList (Clazz own d deps ext base) =
     (let opt = protoDefaultOption (Clazz own d deps ext base)
      in (if truthy opt then [opt] else []) @
         (case base of Some clz \<Rightarrow> collectOptList clz | None \<Rightarrow> []))"

text \<open>
  The \<^verbatim>\<open>for (var i = optList.length - 1; i >= 0; i--)\<close> loop; the second argument counts
  the entries still to merge, so the entry merged next is \<open>optList ! i\<close>.
\<close>

fun mergeOptList :: "jv list \<Rightarrow> nat \<Rightarrow> jv \<Rightarrow> jv" where
  "mergeOptList optList 0 defaultOption = defaultOption"
| "mergeOptList optList (Suc i) defaultOption =
     mergeOptList optList i (merge defaultOption (optList ! i) True)"

definition getDefaultOption :: "componentModel \<Rightarrow> innerStore \<Rightarrow> jv \<times> innerStore" where
  "getDefaultOption this st =
     (if \<not> isExtendedClass (ctor this) then (protoDefaultOption (ctor this), st)
      else if \<not> truthy (inner st this)
      then (let optList = collectOptList (ctor this);
                defaultOption = mergeOptList optList (length optList) (JObj [])
            in (defaultOption, st(uid this := defaultOption)))
      else (inner st this, st))"

section \<open>Merging options\<close>

definition LOCATION_PARAMS :: "string list" where
  "LOCATION_PARAMS = [''left'', ''right'', ''top'', ''bottom'', ''width'', ''height'']"

text \<open>
  Modelled from the spec: \<^verbatim>\<open>getLayoutParams\<close> of util/layout lies outside
  model/Component.ts. It is the extractor that takes "the position/size fields (left,right,top,bottom,width,height) from
  option": a fresh object holding those of the six that the option has. A position or a
  size is a number or a string, so the snapshot shares no object with the option.
\<close>

definition getLayoutParams :: "jv \<Rightarrow> jv" where
  "getLayoutParams source =
     JObj (concat (map (\<lambda>name. case field source name of
                                 Some v \<Rightarrow> [(name, v)] | None \<Rightarrow> [])
                       LOCATION_PARAMS))"

text \<open>
  \<^verbatim>\<open>mergeDefaultAndTheme\<close>. The reconciliation \<^verbatim>\<open>layout.mergeLayoutParam(target, source, mode)\<close>
  is "an external pure function with a documented contract, not re-specified": it is the
  parameter \<open>mergeLayoutParam\<close>, giving the target after the call. The result is the option
  object after the call, with the store of private fields.
\<close>

definition mergeDefaultAndTheme ::
  "(jv \<Rightarrow> jv \<Rightarrow> layoutMode \<Rightarrow> jv) \<Rightarrow> componentModel \<Rightarrow> jv \<Rightarrow> globalModel \<Rightarrow>
   innerStore \<Rightarrow> jv \<times> innerStore" where
  "mergeDefaultAndTheme mergeLayoutParam this opt ecm st =
     (let inputPositionParams =
            (if declared (layoutMode this) then getLayoutParams opt else JObj []);
          opt1 = mergeInto opt (themeGet ecm (mainType this)) False;
          (defaultOption, st') = getDefaultOption this st;
          opt2 = mergeInto opt1 defaultOption False
      in (case layoutMode this of
            Some mode \<Rightarrow>
              if declared (Some mode)
              then (mergeLayoutParam opt2 inputPositionParams mode, st')
              else (opt2, st')
          | None \<Rightarrow> (opt2, st')))"

text \<open>
  \<^verbatim>\<open>init\<close> merges in place into the object it is handed and assigns nothing to the
  instance. The instance's option changes only when the object handed in is the very
  object that the instance holds as \<^verbatim>\<open>this.option\<close>; an argument says which of the two
  is the case.
\<close>

datatype handedOption = OwnOption | OtherObject jv

text \<open>
  \<^verbatim>\<open>init\<close>: the instance, the object handed in and the store of private fields after
  the call. The argument \<^verbatim>\<open>parentModel\<close> is not used.
\<close>

definition init ::
  "(jv \<Rightarrow> jv \<Rightarrow> layoutMode \<Rightarrow> jv) \<Rightarrow> componentModel \<Rightarrow> handedOption \<Rightarrow> globalModel \<Rightarrow>
   innerStore \<Rightarrow> componentModel \<times> jv \<times> innerStore" where
  "init mergeLayoutParam this handed ecm st =
     (case handed of
        OwnOption \<Rightarrow>
          (let (opt', st') = mergeDefaultAndTheme mergeLayoutParam this (option this) ecm st
           in (this\<lparr>option := opt'\<rparr>, opt', st'))
      | OtherObject opt \<Rightarrow>
          (let (opt', st') = mergeDefaultAndTheme mergeLayoutParam this opt ecm st
           in (this, opt', st')))"

text \<open>\<^verbatim>\<open>mergeOption\<close>; the argument \<^verbatim>\<open>ecModel\<close> is not used.\<close>

definition mergeOption ::
  "(jv \<Rightarrow> jv \<Rightarrow> layoutMode \<Rightarrow> jv) \<Rightarrow> componentModel \<Rightarrow> jv \<Rightarrow> globalModel \<Rightarrow>
   componentModel" where
  "mergeOption mergeLayoutParam this newOption ecm =
     (let merged = mergeInto (option this) newOption True
      in (case layoutMode this of
            Some mode \<Rightarrow>
              if declared (Some mode)
              then this\<lparr>option := mergeLayoutParam merged newOption mode\<rparr>
              else this\<lparr>option := merged\<rparr>
          | None \<Rightarrow> this\<lparr>option := merged\<rparr>))"

text \<open>
  \<^verbatim>\<open>optionUpdated\<close>, the "hooker after init or mergeOption": its body in
  \<^verbatim>\<open>ComponentModel\<close> is empty, and a subclass may give it one.
\<close>

definition optionUpdated :: "componentModel \<Rightarrow> jv \<Rightarrow> bool \<Rightarrow> componentModel" where
  "optionUpdated this newCptOption isInit =
     (case optionUpdatedOverride this of
        None \<Rightarrow> this
      | Some body \<Rightarrow> this\<lparr>option := body newCptOption isInit (option this)\<rparr>)"

section \<open>Properties of the merge primitive\<close>

declare merge.simps [simp del]

lemma map_of_setField: "map_of (setField k v fs) = (map_of fs)(k \<mapsto> v)"
  by (induction fs) (auto simp: fun_eq_iff)

lemma mergeFields_other:
  "k \<notin> fst ` set s \<Longrightarrow> map_of (mergeFields t s ow) k = map_of t k"
  by (induction s arbitrary: t) (auto simp: map_of_setField split: option.splits)

lemma map_of_mergeFields:
  "distinct (map fst s) \<Longrightarrow>
   map_of (mergeFields t s ow) k =
     (case map_of s k of
        None \<Rightarrow> map_of t k
      | Some sv \<Rightarrow>
          (case map_of t k of
             None \<Rightarrow> Some sv
           | Some tv \<Rightarrow> Some (if isPlainObject sv \<and> isPlainObject tv then merge tv sv ow
                              else if ow then sv else tv)))"
proof (induction s arbitrary: t)
  case Nil
  then show ?case by simp
next
  case (Cons a s)
  obtain key sv where a: "a = (key, sv)" by (cases a)
  show ?case
  proof (cases "k = key")
    case True
    with Cons.prems a have "k \<notin> fst ` set s" by auto
    then show ?thesis using True a
      by (simp add: mergeFields_other map_of_setField split: option.splits)
  next
    case False
    then show ?thesis using Cons a
      by (simp add: map_of_setField split: option.splits)
  qed
qed

lemma merge_not_both:
  "\<not> (isPlainObject t \<and> isPlainObject s) \<Longrightarrow> merge t s ow = (if ow then s else t)"
  by (cases t; cases s) (simp_all add: merge.simps)

lemma merge_JObj: "merge (JObj t) (JObj s) ow = JObj (mergeFields t s ow)"
  by (simp add: merge.simps)

lemma isPlainObject_merge_False: "isPlainObject t \<Longrightarrow> isPlainObject (merge t s False)"
  by (cases t; cases s) (simp_all add: merge.simps)

lemma mergeInto_False: "mergeInto t s False = merge t s False"
  by (simp add: mergeInto_def merge_not_both)

lemma field_merge_False:
  assumes "isPlainObject T" "keysDistinct S"
  shows "field (merge T S False) k =
           (case field T k of
              Some u \<Rightarrow> Some (merge u (getProp S k) False)
            | None \<Rightarrow> field S k)"
proof -
  from assms(1) obtain t where T: "T = JObj t" by (cases T) simp_all
  show ?thesis
  proof (cases "isPlainObject S")
    case False
    then have "field S k = None" by (cases S) simp_all
    with False T show ?thesis
      by (simp add: merge_not_both getProp_def split: option.splits)
  next
    case True
    then obtain s where S: "S = JObj s" by (cases S) simp_all
    with assms(2) have d: "distinct (map fst s)" by simp
    show ?thesis unfolding T S merge_JObj
      by (auto simp: map_of_mergeFields [OF d] getProp_def merge_not_both split: option.splits)
  qed
qed

lemma field_merge_True:
  assumes "isPlainObject S" "keysDistinct S"
  shows "field (merge T S True) k =
           (case field S k of
              Some v \<Rightarrow> Some (merge (getProp T k) v True)
            | None \<Rightarrow> field T k)"
proof -
  from assms(1) obtain s where S: "S = JObj s" by (cases S) simp_all
  with assms(2) have d: "distinct (map fst s)" by simp
  show ?thesis
  proof (cases "isPlainObject T")
    case False
    then have "field T k = None" by (cases T) simp_all
    with False S show ?thesis
      by (simp add: merge_not_both getProp_def split: option.splits)
  next
    case True
    then obtain t where T: "T = JObj t" by (cases T) simp_all
    show ?thesis unfolding T S merge_JObj
      by (auto simp: map_of_mergeFields [OF d] getProp_def merge_not_both split: option.splits)
  qed
qed

lemma mergeDefaultAndTheme_fst:
  "fst (mergeDefaultAndTheme mlp this opt ecm st) =
     (let merged = merge (merge opt (themeGet ecm (mainType this)) False)
                         (fst (getDefaultOption this st)) False
      in case layoutMode this of
           Some mode \<Rightarrow> if declared (Some mode)
                        then mlp merged (getLayoutParams opt) mode else merged
         | None \<Rightarrow> merged)"
  by (simp add: mergeDefaultAndTheme_def mergeInto_False Let_def split: prod.splits option.splits)

section \<open>Merging theme and defaults into the user option\<close>

text \<open>
  Claim C1. For every component instance, \<^verbatim>\<open>mergeDefaultAndTheme\<close> merges the theme's
  fragment for the instance's main type and then the instance's default option into the
  user option without overwriting what the user option defines. Key by key, at every depth:
  a value of the user option is kept (an object is completed from the theme's and then the
  default's object), a key the user option lacks takes the theme's value, and a key that
  both lack takes the default's. The returned option is this merge, passed through the
  layout reconciliation when a layout mode is declared. With option \<open>{a: 1}\<close>, theme
  \<open>{a: 2, b: 2}\<close> and default option \<open>{a: 3, b: 3, c: 3}\<close> the result is
  \<open>{a: 1, b: 2, c: 3}\<close>.
\<close>

theorem mergeDefaultAndTheme_precedence:
  assumes "isPlainObject opt"
    and "keysDistinct (themeGet ecm (mainType this))"
    and "keysDistinct (fst (getDefaultOption this st))"
  shows
    "let theme = themeGet ecm (mainType this);
         defaultOption = fst (getDefaultOption this st);
         merged = merge (merge opt theme False) defaultOption False;
         result = fst (mergeDefaultAndTheme mergeLayoutParam this opt ecm st)
     in (\<forall>k. field merged k =
           (case field opt k of
              Some u \<Rightarrow> Some (merge (merge u (getProp theme k) False) (getProp defaultOption k) False)
            | None \<Rightarrow>
                (case field theme k of
                   Some v \<Rightarrow> Some (merge v (getProp defaultOption k) False)
                 | None \<Rightarrow> field defaultOption k)))
      \<and> (\<forall>k u. field opt k = Some u \<and> \<not> isPlainObject u \<longrightarrow> field merged k = Some u)
      \<and> (\<forall>k v. field opt k = None \<and> field theme k = Some v \<and> \<not> isPlainObject v
             \<longrightarrow> field merged k = Some v)
      \<and> (\<forall>k. field opt k = None \<and> field theme k = None
             \<longrightarrow> field merged k = field defaultOption k)
      \<and> (\<not> declared (layoutMode this) \<longrightarrow> result = merged)
      \<and> (declared (layoutMode this) \<longrightarrow>
           (\<exists>mode snapshot. layoutMode this = Some mode
              \<and> result = mergeLayoutParam merged snapshot mode))"
proof -
  define theme where "theme = themeGet ecm (mainType this)"
  define dflt where "dflt = fst (getDefaultOption this st)"
  define m1 where "m1 = merge opt theme False"
  define merged where "merged = merge m1 dflt False"
  have kt: "keysDistinct theme" and kd: "keysDistinct dflt"
    using assms by (simp_all add: theme_def dflt_def)
  have p1: "isPlainObject m1"
    using assms(1) by (simp add: m1_def isPlainObject_merge_False)
  have f1: "field m1 k =
      (case field opt k of Some u \<Rightarrow> Some (merge u (getProp theme k) False)
       | None \<Rightarrow> field theme k)" for k
    unfolding m1_def by (rule field_merge_False [OF assms(1) kt])
  have f2: "field merged k =
      (case field m1 k of Some u \<Rightarrow> Some (merge u (getProp dflt k) False)
       | None \<Rightarrow> field dflt k)" for k
    unfolding merged_def by (rule field_merge_False [OF p1 kd])
  have full: "field merged k =
      (case field opt k of
         Some u \<Rightarrow> Some (merge (merge u (getProp theme k) False) (getProp dflt k) False)
       | None \<Rightarrow> (case field theme k of
                    Some v \<Rightarrow> Some (merge v (getProp dflt k) False)
                  | None \<Rightarrow> field dflt k))" for k
    by (simp add: f2 f1 split: option.splits)
  have user: "field merged k = Some u"
    if "field opt k = Some u" "\<not> isPlainObject u" for k u
    using that by (simp add: full merge_not_both)
  have themed: "field merged k = Some v"
    if "field opt k = None" "field theme k = Some v" "\<not> isPlainObject v" for k v
    using that by (simp add: full merge_not_both)
  have dfl: "field merged k = field dflt k"
    if "field opt k = None" "field theme k = None" for k
    using that by (simp add: full)
  have res: "fst (mergeDefaultAndTheme mergeLayoutParam this opt ecm st) =
      (case layoutMode this of
         Some mode \<Rightarrow> if declared (Some mode)
                      then mergeLayoutParam merged (getLayoutParams opt) mode else merged
       | None \<Rightarrow> merged)"
    unfolding merged_def m1_def theme_def dflt_def
    by (simp add: mergeDefaultAndTheme_fst Let_def)
  have nolay: "fst (mergeDefaultAndTheme mergeLayoutParam this opt ecm st) = merged"
    if "\<not> declared (layoutMode this)"
    using that by (cases "layoutMode this") (simp_all add: res)
  have lay: "\<exists>mode snapshot. layoutMode this = Some mode \<and>
      fst (mergeDefaultAndTheme mergeLayoutParam this opt ecm st)
        = mergeLayoutParam merged snapshot mode"
    if "declared (layoutMode this)"
  proof (cases "layoutMode this")
    case None
    with that show ?thesis by simp
  next
    case (Some mode)
    with that have "fst (mergeDefaultAndTheme mergeLayoutParam this opt ecm st)
        = mergeLayoutParam merged (getLayoutParams opt) mode"
      by (simp add: res)
    with Some show ?thesis by blast
  qed
  show ?thesis
    unfolding Let_def
    using full user themed dfl nolay lay
    unfolding merged_def m1_def theme_def dflt_def
    by blast
qed

theorem mergeDefaultAndTheme_precedence_witness:
  "isPlainObject (JObj [(''a'', JNum 1)])
   \<and> keysDistinct (JObj [(''a'', JNum 2), (''b'', JNum 2)])
   \<and> keysDistinct (JObj [(''a'', JNum 3), (''b'', JNum 3), (''c'', JNum 3)])
   \<and> fst (mergeDefaultAndTheme (\<lambda>target source mode. target)
        (newComponentModel
           (Clazz noIdentity (ProtoDefault (JObj [(''a'', JNum 3), (''b'', JNum 3), (''c'', JNum 3)])) None False None)
           None None (JObj [(''a'', JNum 1)])
           \<lparr>themeGet = (\<lambda>key. JObj [(''a'', JNum 2), (''b'', JNum 2)])\<rparr> ''ec_cpt_model_0'')
        (JObj [(''a'', JNum 1)])
        \<lparr>themeGet = (\<lambda>key. JObj [(''a'', JNum 2), (''b'', JNum 2)])\<rparr>
        emptyInner)
     = JObj [(''a'', JNum 1), (''b'', JNum 2), (''c'', JNum 3)]
   \<and> declared (Some (LayoutFlags True))
   \<and> fst (mergeDefaultAndTheme (\<lambda>target source mode. JArr [target, source])
        (newComponentModel
           (Clazz noIdentity (ProtoDefault (JObj [(''a'', JNum 3), (''b'', JNum 3), (''c'', JNum 3)])) None False None)
           (Some (LayoutFlags True)) None (JObj [(''a'', JNum 1)])
           \<lparr>themeGet = (\<lambda>key. JObj [(''a'', JNum 2), (''b'', JNum 2)])\<rparr> ''ec_cpt_model_1'')
        (JObj [(''a'', JNum 1)])
        \<lparr>themeGet = (\<lambda>key. JObj [(''a'', JNum 2), (''b'', JNum 2)])\<rparr>
        emptyInner)
     = JArr [JObj [(''a'', JNum 1), (''b'', JNum 2), (''c'', JNum 3)], JObj []]"
  using mergeDefaultAndTheme_precedence
    [of "JObj [(''a'', JNum 1)]"
        "\<lparr>themeGet = (\<lambda>key. JObj [(''a'', JNum 2), (''b'', JNum 2)])\<rparr>"
        "newComponentModel
           (Clazz noIdentity (ProtoDefault (JObj [(''a'', JNum 3), (''b'', JNum 3), (''c'', JNum 3)])) None False None)
           None None (JObj [(''a'', JNum 1)])
           \<lparr>themeGet = (\<lambda>key. JObj [(''a'', JNum 2), (''b'', JNum 2)])\<rparr> ''ec_cpt_model_0''"
        emptyInner "\<lambda>target source mode. target"]
    mergeDefaultAndTheme_precedence
    [of "JObj [(''a'', JNum 1)]"
        "\<lparr>themeGet = (\<lambda>key. JObj [(''a'', JNum 2), (''b'', JNum 2)])\<rparr>"
        "newComponentModel
           (Clazz noIdentity (ProtoDefault (JObj [(''a'', JNum 3), (''b'', JNum 3), (''c'', JNum 3)])) None False None)
           (Some (LayoutFlags True)) None (JObj [(''a'', JNum 1)])
           \<lparr>themeGet = (\<lambda>key. JObj [(''a'', JNum 2), (''b'', JNum 2)])\<rparr> ''ec_cpt_model_1''"
        emptyInner "\<lambda>target source mode. JArr [target, source]"]
  by (simp add: newComponentModel_def componentProto.extend_def componentModel.fields_def
      protoInitialize_def noIdentity_def getDefaultOption_def mergeDefaultAndTheme_def mergeInto_def
      getLayoutParams_def LOCATION_PARAMS_def merge.simps Let_def)

section \<open>Patching an existing instance\<close>

lemma mergeInto_objects:
  "isPlainObject t \<Longrightarrow> isPlainObject s \<Longrightarrow> mergeInto t s ow = merge t s ow"
  by (simp add: mergeInto_def)

text \<open>
  Claim C2. For an instance that already has an option object, \<^verbatim>\<open>mergeOption\<close> merges the
  new option into the instance's current option with the incoming fields winning: key by
  key, a value of the new option replaces the current one (two objects are merged, again
  with the incoming side winning), and a key the new option lacks keeps its current value.
  The layout reconciliation is then applied to the merged option and the new option when a
  layout mode is declared, and not otherwise. With current option \<open>{a: 1, b: 2}\<close>,
  \<^verbatim>\<open>mergeOption({b: 9, c: 9})\<close> gives \<open>{a: 1, b: 9, c: 9}\<close>.
\<close>

theorem mergeOption_precedence:
  assumes "isPlainObject (option this)"
    and "isPlainObject newOption"
    and "keysDistinct newOption"
  shows
    "let merged = merge (option this) newOption True;
         result = mergeOption mergeLayoutParam this newOption ecm
     in (\<forall>k. field merged k =
           (case field newOption k of
              Some v \<Rightarrow> Some (merge (getProp (option this) k) v True)
            | None \<Rightarrow> field (option this) k))
      \<and> (\<forall>k v. field newOption k = Some v \<and> \<not> isPlainObject v \<longrightarrow> field merged k = Some v)
      \<and> (\<forall>k. field newOption k = None \<longrightarrow> field merged k = field (option this) k)
      \<and> (\<not> declared (layoutMode this) \<longrightarrow> result = this\<lparr>option := merged\<rparr>)
      \<and> (\<forall>mode. layoutMode this = Some mode \<and> declared (Some mode) \<longrightarrow>
            result = this\<lparr>option := mergeLayoutParam merged newOption mode\<rparr>)"
proof -
  define merged where "merged = merge (option this) newOption True"
  have into: "mergeInto (option this) newOption True = merged"
    using assms(1,2) by (simp add: merged_def mergeInto_objects)
  have full: "field merged k =
      (case field newOption k of
         Some v \<Rightarrow> Some (merge (getProp (option this) k) v True)
       | None \<Rightarrow> field (option this) k)" for k
    unfolding merged_def by (rule field_merge_True [OF assms(2,3)])
  have incoming: "field merged k = Some v"
    if "field newOption k = Some v" "\<not> isPlainObject v" for k v
    using that by (simp add: full merge_not_both)
  have kept: "field merged k = field (option this) k" if "field newOption k = None" for k
    using that by (simp add: full)
  have nolay: "mergeOption mergeLayoutParam this newOption ecm = this\<lparr>option := merged\<rparr>"
    if "\<not> declared (layoutMode this)"
    using that by (cases "layoutMode this") (simp_all add: mergeOption_def into)
  have lay: "mergeOption mergeLayoutParam this newOption ecm
      = this\<lparr>option := mergeLayoutParam merged newOption mode\<rparr>"
    if "layoutMode this = Some mode" "declared (Some mode)" for mode
    using that by (simp add: mergeOption_def into)
  show ?thesis
    unfolding Let_def
    using full incoming kept nolay lay
    unfolding merged_def
    by blast
qed

text \<open>The example of the claim, on an instance with no layout mode.\<close>

theorem mergeOption_precedence_witness:
  "isPlainObject (JObj [(''a'', JNum 1), (''b'', JNum 2)])
   \<and> isPlainObject (JObj [(''b'', JNum 9), (''c'', JNum 9)])
   \<and> keysDistinct (JObj [(''b'', JNum 9), (''c'', JNum 9)])
   \<and> option (mergeOption (\<lambda>target source mode. target)
        (newComponentModel (Clazz noIdentity NoDefault None False None) None None
           (JObj [(''a'', JNum 1), (''b'', JNum 2)])
           \<lparr>themeGet = (\<lambda>key. JUndefined)\<rparr> ''ec_cpt_model_0'')
        (JObj [(''b'', JNum 9), (''c'', JNum 9)])
        \<lparr>themeGet = (\<lambda>key. JUndefined)\<rparr>)
     = JObj [(''a'', JNum 1), (''b'', JNum 9), (''c'', JNum 9)]
   \<and> declared (Some (LayoutName ''box''))
   \<and> option (mergeOption (\<lambda>target source mode. JArr [target, source])
        (newComponentModel (Clazz noIdentity NoDefault None False None) (Some (LayoutName ''box'')) None
           (JObj [(''a'', JNum 1), (''b'', JNum 2)])
           \<lparr>themeGet = (\<lambda>key. JUndefined)\<rparr> ''ec_cpt_model_1'')
        (JObj [(''b'', JNum 9), (''c'', JNum 9)])
        \<lparr>themeGet = (\<lambda>key. JUndefined)\<rparr>)
     = JArr [JObj [(''a'', JNum 1), (''b'', JNum 9), (''c'', JNum 9)],
             JObj [(''b'', JNum 9), (''c'', JNum 9)]]"
  using mergeOption_precedence
    [of "newComponentModel (Clazz noIdentity NoDefault None False None) (Some (LayoutName ''box'')) None
           (JObj [(''a'', JNum 1), (''b'', JNum 2)])
           \<lparr>themeGet = (\<lambda>key. JUndefined)\<rparr> ''ec_cpt_model_1''"
        "JObj [(''b'', JNum 9), (''c'', JNum 9)]"
        "\<lambda>target source mode. JArr [target, source]"
        "\<lparr>themeGet = (\<lambda>key. JUndefined)\<rparr>"]
    mergeOption_precedence
    [of "newComponentModel (Clazz noIdentity NoDefault None False None) None None
           (JObj [(''a'', JNum 1), (''b'', JNum 2)])
           \<lparr>themeGet = (\<lambda>key. JUndefined)\<rparr> ''ec_cpt_model_0''"
        "JObj [(''b'', JNum 9), (''c'', JNum 9)]"
        "\<lambda>target source mode. target"
        "\<lparr>themeGet = (\<lambda>key. JUndefined)\<rparr>"]
  by (simp add: newComponentModel_def componentProto.extend_def componentModel.fields_def
      protoInitialize_def noIdentity_def mergeOption_def mergeInto_def merge.simps Let_def)

section \<open>Dependencies of a main type\<close>

lemma indexOf_neg_iff: "indexOf xs v < 0 \<longleftrightarrow> v \<notin> set xs"
  by (induction xs) (auto simp: Let_def)

lemma indexOf_le_0_iff: "indexOf xs v \<le> 0 \<longleftrightarrow> v \<notin> set xs \<or> take 1 xs = [v]"
proof (cases xs)
  case Nil
  then show ?thesis by simp
next
  case (Cons x ys)
  have "0 \<le> indexOf ys v \<or> indexOf ys v < 0" by linarith
  then show ?thesis
    using Cons indexOf_neg_iff [of ys v] by (auto simp: Let_def)
qed

lemma eachClass_constructors:
  "eachClass (map Some classes) acc =
     Inr (acc @ concat (map (\<lambda>clz. case protoDependencies clz of
                                     Some ds \<Rightarrow> ds | None \<Rightarrow> []) classes))"
  by (induction classes arbitrary: acc) simp_all

lemma getDependencies_unfold:
  "reg componentType = map Some classes \<Longrightarrow>
   getDependencies reg componentType =
     (let deps = map (\<lambda>t. main (parseClassType t))
                   (concat (map (\<lambda>clz. case protoDependencies clz of
                                          Some ds \<Rightarrow> ds | None \<Rightarrow> [])
                                classes))
      in Inr (if componentType \<noteq> ''dataset''
                 \<and> (''dataset'' \<notin> set deps \<or> take 1 deps = [''dataset''])
              then ''dataset'' # deps else deps))"
  by (simp add: getDependencies_def eachClass_constructors indexOf_le_0_iff Let_def)




text \<open>
  Claim C4, as the code has it. For every registered main type other than "dataset",
  \<^verbatim>\<open>getDependencies\<close> returns a sequence that contains "dataset", whether or not a
  constructor registered under it declares it. For "dataset" itself nothing is added: the
  result is the normalized dependencies of the constructors registered under "dataset",
  and so contains "dataset" exactly when one of them declares a dependency whose main
  component is "dataset".
\<close>

theorem getDependencies_dataset:
  "(\<forall>X classes. X \<noteq> ''dataset'' \<and> classes \<noteq> []
        \<and> getClassesByMainType X = map Some classes \<longrightarrow>
      (\<exists>names. getDependencies getClassesByMainType X = Inr names
         \<and> ''dataset'' \<in> set names))
   \<and> (\<forall>classes. getClassesByMainType ''dataset'' = map Some classes \<longrightarrow>
        (\<exists>names. getDependencies getClassesByMainType ''dataset'' = Inr names
           \<and> names = map (\<lambda>t. main (parseClassType t))
                        (concat (map (\<lambda>clz. case protoDependencies clz of
                                               Some ds \<Rightarrow> ds | None \<Rightarrow> []) classes))
           \<and> (''dataset'' \<in> set names \<longleftrightarrow>
                (\<exists>clz \<in> set classes. \<exists>ds. protoDependencies clz = Some ds
                   \<and> (\<exists>t \<in> set ds. main (parseClassType t) = ''dataset'')))))"
proof -
  have a: "\<exists>names. getDependencies getClassesByMainType X = Inr names \<and> ''dataset'' \<in> set names"
    if "X \<noteq> ''dataset''" "getClassesByMainType X = map Some classes" for X classes
    using that(1)
    unfolding getDependencies_unfold
      [where reg = getClassesByMainType and classes = classes, OF that(2)] Let_def
    by auto
  have b: "\<exists>names. getDependencies getClassesByMainType ''dataset'' = Inr names
      \<and> names = map (\<lambda>t. main (parseClassType t))
                   (concat (map (\<lambda>clz. case protoDependencies clz of
                                          Some ds \<Rightarrow> ds | None \<Rightarrow> []) classes))
      \<and> (''dataset'' \<in> set names \<longleftrightarrow>
           (\<exists>clz \<in> set classes. \<exists>ds. protoDependencies clz = Some ds
              \<and> (\<exists>t \<in> set ds. main (parseClassType t) = ''dataset'')))"
    if "getClassesByMainType ''dataset'' = map Some classes" for classes
    unfolding getDependencies_unfold
      [where reg = getClassesByMainType and classes = classes, OF that] Let_def
    by (simp add: image_iff) metis
  from a b show ?thesis by blast
qed

text \<open>
  A grid class that declares no dependency still depends on "dataset"; a class under
  "dataset" that lists only the grid does not.
\<close>

theorem getDependencies_dataset_witness:
  "getDependencies (\<lambda>m. [Some (Clazz noIdentity NoDefault None False None)]) ''grid''
     = Inr [''dataset'']
   \<and> getDependencies
        (\<lambda>m. [Some (Clazz noIdentity NoDefault (Some [''grid'']) False None)]) ''dataset''
     = Inr [''grid'']"
  using getDependencies_dataset
      [where getClassesByMainType = "\<lambda>m. [Some (Clazz noIdentity NoDefault None False None)]"]
    getDependencies_dataset
      [where getClassesByMainType =
         "\<lambda>m. [Some (Clazz noIdentity NoDefault (Some [''grid'']) False None)]"]
  by (simp add: getDependencies_def parseClassType_def)

text \<open>A constructor under "dataset" that lists "dataset" keeps it in the result.\<close>

theorem getDependencies_dataset_self:
  "getDependencies
     (\<lambda>m. [Some (Clazz noIdentity NoDefault (Some [''dataset'']) False None)]) ''dataset''
   = Inr [''dataset'']"
  by (simp add: getDependencies_def parseClassType_def)




section \<open>The inherited default option\<close>







text \<open>
  Claim C5. On an instance of an extended class the first access merges the default
  options found along the chain, a derived class over its base: base \<open>{aaa: 1}\<close> with
  derived \<open>{bbb: 2}\<close> gives \<open>{aaa: 1, bbb: 2}\<close>, a class derived from these with
  \<open>{aaa: 9}\<close> gives \<open>{aaa: 9, bbb: 2}\<close>, and a class on the chain that declares no default
  does not stop the walk. On an instance of a class that is not an extended class the
  function returns what the prototype holds. That is the declared default only for a class
  that puts it on its prototype: for a class that declares it as a class field, the way the
  comment on \<^verbatim>\<open>getDefaultOption\<close> shows for \<^verbatim>\<open>XxxModel\<close> and \<^verbatim>\<open>XxxSubModel\<close>, the
  prototype holds nothing and the function returns \<^verbatim>\<open>undefined\<close>, where the comment
  expects \<open>{aaa: 123, bbb: 456}\<close>.
\<close>

theorem getDefaultOption_class_field:
  "getDefaultOption
     (newComponentModel
        (Clazz noIdentity (FieldDefault (JObj [(''aaa'', JNum 123)])) None False
          (Some (Clazz noIdentity NoDefault None False None)))
        None None (JObj []) \<lparr>themeGet = (\<lambda>key. JUndefined)\<rparr> ''ec_cpt_model_0'')
     emptyInner
   = (JUndefined, emptyInner)
   \<and> getDefaultOption
     (newComponentModel
        (Clazz noIdentity (FieldDefault (JObj [(''bbb'', JNum 456), (''aaa'', JNum 123)])) None False
          (Some (Clazz noIdentity (FieldDefault (JObj [(''aaa'', JNum 123)])) None False
            (Some (Clazz noIdentity NoDefault None False None)))))
        None None (JObj []) \<lparr>themeGet = (\<lambda>key. JUndefined)\<rparr> ''ec_cpt_model_1'')
     emptyInner
   = (JUndefined, emptyInner)
   \<and> getDefaultOption
     (newComponentModel
        (Clazz noIdentity (ProtoDefault (JObj [(''aaa'', JNum 123)])) None False
          (Some (Clazz noIdentity NoDefault None False None)))
        None None (JObj []) \<lparr>themeGet = (\<lambda>key. JUndefined)\<rparr> ''ec_cpt_model_2'')
     emptyInner
   = (JObj [(''aaa'', JNum 123)], emptyInner)
   \<and> fst (getDefaultOption
     (newComponentModel
        (Clazz noIdentity (ProtoDefault (JObj [(''bbb'', JNum 2)])) None True
          (Some (Clazz noIdentity (ProtoDefault (JObj [(''aaa'', JNum 1)])) None True
            (Some (Clazz noIdentity NoDefault None False None)))))
        None None (JObj []) \<lparr>themeGet = (\<lambda>key. JUndefined)\<rparr> ''ec_cpt_model_3'')
     emptyInner)
   = JObj [(''aaa'', JNum 1), (''bbb'', JNum 2)]
   \<and> fst (getDefaultOption
     (newComponentModel
        (Clazz noIdentity (ProtoDefault (JObj [(''aaa'', JNum 9)])) None True
          (Some (Clazz noIdentity (ProtoDefault (JObj [(''bbb'', JNum 2)])) None True
            (Some (Clazz noIdentity (ProtoDefault (JObj [(''aaa'', JNum 1)])) None True
              (Some (Clazz noIdentity NoDefault None False None)))))))
        None None (JObj []) \<lparr>themeGet = (\<lambda>key. JUndefined)\<rparr> ''ec_cpt_model_4'')
     emptyInner)
   = JObj [(''aaa'', JNum 9), (''bbb'', JNum 2)]
   \<and> fst (getDefaultOption
     (newComponentModel
        (Clazz noIdentity (ProtoDefault (JObj [(''bbb'', JNum 2)])) None True
          (Some (Clazz noIdentity NoDefault None True
            (Some (Clazz noIdentity (ProtoDefault (JObj [(''aaa'', JNum 1)])) None True
              (Some (Clazz noIdentity NoDefault None False None)))))))
        None None (JObj []) \<lparr>themeGet = (\<lambda>key. JUndefined)\<rparr> ''ec_cpt_model_5'')
     emptyInner)
   = JObj [(''aaa'', JNum 1), (''bbb'', JNum 2)]"
  by (simp add: newComponentModel_def componentProto.extend_def componentModel.fields_def
      protoInitialize_def noIdentity_def getDefaultOption_def inner_def emptyInner_def
      merge.simps Let_def)




section \<open>Initialisation\<close>

text \<open>
  Claim C8, as the code has it. \<^verbatim>\<open>init\<close> runs \<^verbatim>\<open>mergeDefaultAndTheme\<close> on the object it
  is handed and does nothing else: when that object is the one the instance holds as its
  option, the merge result is the instance's working option, and when it is another
  object the instance is left as it was. The result does not depend on the body a subclass
  gives to \<^verbatim>\<open>optionUpdated\<close>, which \<^verbatim>\<open>init\<close> does not invoke. The hook \<^verbatim>\<open>optionUpdated\<close>
  is for the caller to invoke after \<^verbatim>\<open>init\<close>, and it changes nothing unless a subclass
  overrides it.
\<close>

theorem init_merges_only:
  "init mergeLayoutParam this OwnOption ecm st
     = (this\<lparr>option := fst (mergeDefaultAndTheme mergeLayoutParam this (option this) ecm st)\<rparr>,
        mergeDefaultAndTheme mergeLayoutParam this (option this) ecm st)
   \<and> init mergeLayoutParam this (OtherObject opt) ecm st
     = (this, mergeDefaultAndTheme mergeLayoutParam this opt ecm st)
   \<and> fst (init mergeLayoutParam (this\<lparr>optionUpdatedOverride := body\<rparr>) handed ecm st)
     = (fst (init mergeLayoutParam this handed ecm st))\<lparr>optionUpdatedOverride := body\<rparr>
   \<and> snd (init mergeLayoutParam (this\<lparr>optionUpdatedOverride := body\<rparr>) handed ecm st)
     = snd (init mergeLayoutParam this handed ecm st)
   \<and> (optionUpdatedOverride this = None \<longrightarrow> optionUpdated this newCptOption isInit = this)"
  by (cases handed)
    (simp_all add: init_def mergeDefaultAndTheme_def getDefaultOption_def inner_def
      optionUpdated_def Let_def split: prod.splits option.splits)

text \<open>
  An instance holding \<open>{a: 1}\<close> under a theme \<open>{b: 2}\<close>: handed its own option it ends
  with \<open>{a: 1, b: 2}\<close>; handed another object \<open>{c: 3}\<close> it keeps \<open>{a: 1}\<close> and that
  object becomes \<open>{c: 3, b: 2}\<close>.
\<close>

theorem init_merges_only_witness:
  "optionUpdatedOverride
     (newComponentModel (Clazz noIdentity NoDefault None False None) None None
        (JObj [(''a'', JNum 1)]) \<lparr>themeGet = (\<lambda>key. JObj [(''b'', JNum 2)])\<rparr> ''ec_cpt_model_0'')
     = None
   \<and> option (fst (init (\<lambda>target source mode. target)
       (newComponentModel (Clazz noIdentity NoDefault None False None) None None
          (JObj [(''a'', JNum 1)]) \<lparr>themeGet = (\<lambda>key. JObj [(''b'', JNum 2)])\<rparr> ''ec_cpt_model_0'')
       OwnOption \<lparr>themeGet = (\<lambda>key. JObj [(''b'', JNum 2)])\<rparr> emptyInner))
     = JObj [(''a'', JNum 1), (''b'', JNum 2)]
   \<and> option (fst (init (\<lambda>target source mode. target)
       (newComponentModel (Clazz noIdentity NoDefault None False None) None None
          (JObj [(''a'', JNum 1)]) \<lparr>themeGet = (\<lambda>key. JObj [(''b'', JNum 2)])\<rparr> ''ec_cpt_model_0'')
       (OtherObject (JObj [(''c'', JNum 3)]))
       \<lparr>themeGet = (\<lambda>key. JObj [(''b'', JNum 2)])\<rparr> emptyInner))
     = JObj [(''a'', JNum 1)]
   \<and> fst (snd (init (\<lambda>target source mode. target)
       (newComponentModel (Clazz noIdentity NoDefault None False None) None None
          (JObj [(''a'', JNum 1)]) \<lparr>themeGet = (\<lambda>key. JObj [(''b'', JNum 2)])\<rparr> ''ec_cpt_model_0'')
       (OtherObject (JObj [(''c'', JNum 3)]))
       \<lparr>themeGet = (\<lambda>key. JObj [(''b'', JNum 2)])\<rparr> emptyInner))
     = JObj [(''c'', JNum 3), (''b'', JNum 2)]
   \<and> optionUpdated
       (newComponentModel (Clazz noIdentity NoDefault None False None) None None
          (JObj [(''a'', JNum 1)]) \<lparr>themeGet = (\<lambda>key. JObj [(''b'', JNum 2)])\<rparr> ''ec_cpt_model_0'')
       (JObj [(''a'', JNum 1)]) True
     = newComponentModel (Clazz noIdentity NoDefault None False None) None None
          (JObj [(''a'', JNum 1)]) \<lparr>themeGet = (\<lambda>key. JObj [(''b'', JNum 2)])\<rparr> ''ec_cpt_model_0''"
  using init_merges_only
    [where this = "newComponentModel (Clazz noIdentity NoDefault None False None) None None
          (JObj [(''a'', JNum 1)]) \<lparr>themeGet = (\<lambda>key. JObj [(''b'', JNum 2)])\<rparr> ''ec_cpt_model_0''"
       and mergeLayoutParam = "\<lambda>target source mode. target"
       and opt = "JObj [(''c'', JNum 3)]"
       and ecm = "\<lparr>themeGet = (\<lambda>key. JObj [(''b'', JNum 2)])\<rparr>"
       and st = emptyInner
       and newCptOption = "JObj [(''a'', JNum 1)]" and isInit = True]
  by (simp add: newComponentModel_def componentProto.extend_def componentModel.fields_def
      protoInitialize_def noIdentity_def mergeDefaultAndTheme_def getDefaultOption_def
      mergeInto_def merge.simps Let_def)

text \<open>
  With a subclass hook that rewrites the option, the option of an instance after \<^verbatim>\<open>init\<close>
  on its own option is not the one that \<^verbatim>\<open>mergeDefaultAndTheme\<close> followed by
  \<^verbatim>\<open>optionUpdated(option, true)\<close> leaves.
\<close>

theorem init_skips_hook:
  "option (fst (init (\<lambda>target source mode. target)
       (newComponentModel (Clazz noIdentity NoDefault None False None) None
          (Some (\<lambda>newCptOption isInit opt. JObj [(''checked'', JBool isInit)]))
          (JObj [(''a'', JNum 1)]) \<lparr>themeGet = (\<lambda>key. JUndefined)\<rparr> ''ec_cpt_model_0'')
       OwnOption \<lparr>themeGet = (\<lambda>key. JUndefined)\<rparr> emptyInner))
   = JObj [(''a'', JNum 1)]
   \<and> option (optionUpdated
       ((newComponentModel (Clazz noIdentity NoDefault None False None) None
          (Some (\<lambda>newCptOption isInit opt. JObj [(''checked'', JBool isInit)]))
          (JObj [(''a'', JNum 1)]) \<lparr>themeGet = (\<lambda>key. JUndefined)\<rparr> ''ec_cpt_model_0'')
        \<lparr>option := fst (mergeDefaultAndTheme (\<lambda>target source mode. target)
           (newComponentModel (Clazz noIdentity NoDefault None False None) None
              (Some (\<lambda>newCptOption isInit opt. JObj [(''checked'', JBool isInit)]))
              (JObj [(''a'', JNum 1)]) \<lparr>themeGet = (\<lambda>key. JUndefined)\<rparr> ''ec_cpt_model_0'')
           (JObj [(''a'', JNum 1)]) \<lparr>themeGet = (\<lambda>key. JUndefined)\<rparr> emptyInner)\<rparr>)
       (JObj [(''a'', JNum 1)]) True)
   = JObj [(''checked'', JBool True)]"
  by (simp add: newComponentModel_def componentProto.extend_def componentModel.fields_def
      protoInitialize_def noIdentity_def init_def mergeDefaultAndTheme_def getDefaultOption_def
      optionUpdated_def mergeInto_def Let_def)

section \<open>Layout mode\<close>

lemma field_getLayoutParams:
  "field (getLayoutParams source) k =
     (if k \<in> set LOCATION_PARAMS then field source k else None)"
  unfolding getLayoutParams_def LOCATION_PARAMS_def
  by (simp split: option.splits)

text \<open>
  Claim C9. When the component declares a layout mode, \<^verbatim>\<open>mergeDefaultAndTheme\<close> takes the
  position and size fields (left, right, top, bottom, width, height) that the user option
  has, before any merging, and after merging the theme and the defaults it hands the
  merged option and that snapshot to the layout reconciliation, whose result is the
  option. When no layout mode is declared the option is the merge itself. The position
  and size fields are taken to hold no nested object, so that the snapshot shares nothing
  with the option that the merge could change.
\<close>

theorem mergeDefaultAndTheme_layout:
  assumes "\<forall>name \<in> set LOCATION_PARAMS. \<forall>v. field opt name = Some v \<longrightarrow> \<not> isPlainObject v"
  shows
    "let merged = merge (merge opt (themeGet ecm (mainType this)) False)
                        (fst (getDefaultOption this st)) False;
         inputPositionParams = getLayoutParams opt;
         result = fst (mergeDefaultAndTheme mergeLayoutParam this opt ecm st)
     in (\<forall>k. field inputPositionParams k =
               (if k \<in> set LOCATION_PARAMS then field opt k else None))
      \<and> (\<forall>mode. layoutMode this = Some mode \<and> declared (Some mode) \<longrightarrow>
            result = mergeLayoutParam merged inputPositionParams mode)
      \<and> (\<not> declared (layoutMode this) \<longrightarrow> result = merged)"
proof -
  have res: "fst (mergeDefaultAndTheme mergeLayoutParam this opt ecm st) =
      (let merged = merge (merge opt (themeGet ecm (mainType this)) False)
                          (fst (getDefaultOption this st)) False
       in case layoutMode this of
            Some mode \<Rightarrow> if declared (Some mode)
                         then mergeLayoutParam merged (getLayoutParams opt) mode else merged
          | None \<Rightarrow> merged)"
    by (rule mergeDefaultAndTheme_fst)
  show ?thesis
    unfolding Let_def res
    by (cases "layoutMode this") (simp_all add: field_getLayoutParams)
qed

text \<open>
  A reconciliation that pairs its two arguments shows what it is given: the merged option
  and the snapshot \<open>{left: 10}\<close> of the user option.
\<close>

theorem mergeDefaultAndTheme_layout_witness:
  "getLayoutParams (JObj [(''left'', JNum 10), (''a'', JNum 1)]) = JObj [(''left'', JNum 10)]
   \<and> fst (mergeDefaultAndTheme (\<lambda>target source mode. JArr [target, source])
        (newComponentModel
           (Clazz noIdentity (ProtoDefault (JObj [(''left'', JNum 0), (''width'', JStr ''auto'')])) None False None)
           (Some (LayoutName ''box'')) None (JObj [(''left'', JNum 10), (''a'', JNum 1)])
           \<lparr>themeGet = (\<lambda>key. JUndefined)\<rparr> ''ec_cpt_model_0'')
        (JObj [(''left'', JNum 10), (''a'', JNum 1)])
        \<lparr>themeGet = (\<lambda>key. JUndefined)\<rparr> emptyInner)
     = JArr [JObj [(''left'', JNum 10), (''a'', JNum 1), (''width'', JStr ''auto'')],
             JObj [(''left'', JNum 10)]]
   \<and> \<not> declared None
   \<and> fst (mergeDefaultAndTheme (\<lambda>target source mode. JArr [target, source])
        (newComponentModel
           (Clazz noIdentity (ProtoDefault (JObj [(''left'', JNum 0), (''width'', JStr ''auto'')])) None False None)
           None None (JObj [(''left'', JNum 10), (''a'', JNum 1)])
           \<lparr>themeGet = (\<lambda>key. JUndefined)\<rparr> ''ec_cpt_model_1'')
        (JObj [(''left'', JNum 10), (''a'', JNum 1)])
        \<lparr>themeGet = (\<lambda>key. JUndefined)\<rparr> emptyInner)
     = JObj [(''left'', JNum 10), (''a'', JNum 1), (''width'', JStr ''auto'')]"
  using mergeDefaultAndTheme_layout
    [where opt = "JObj [(''left'', JNum 10), (''a'', JNum 1)]"
       and this = "newComponentModel
           (Clazz noIdentity (ProtoDefault (JObj [(''left'', JNum 0), (''width'', JStr ''auto'')])) None False None)
           None None (JObj [(''left'', JNum 10), (''a'', JNum 1)])
           \<lparr>themeGet = (\<lambda>key. JUndefined)\<rparr> ''ec_cpt_model_1''"
       and ecm = "\<lparr>themeGet = (\<lambda>key. JUndefined)\<rparr>"
       and st = emptyInner
       and mergeLayoutParam = "\<lambda>target source mode. JArr [target, source]"]
    mergeDefaultAndTheme_layout
    [where opt = "JObj [(''left'', JNum 10), (''a'', JNum 1)]"
       and this = "newComponentModel
           (Clazz noIdentity (ProtoDefault (JObj [(''left'', JNum 0), (''width'', JStr ''auto'')])) None False None)
           (Some (LayoutName ''box'')) None (JObj [(''left'', JNum 10), (''a'', JNum 1)])
           \<lparr>themeGet = (\<lambda>key. JUndefined)\<rparr> ''ec_cpt_model_0''"
       and ecm = "\<lparr>themeGet = (\<lambda>key. JUndefined)\<rparr>"
       and st = emptyInner
       and mergeLayoutParam = "\<lambda>target source mode. JArr [target, source]"]
  by (simp add: newComponentModel_def componentProto.extend_def componentModel.fields_def
      protoInitialize_def noIdentity_def mergeDefaultAndTheme_def getDefaultOption_def
      getLayoutParams_def LOCATION_PARAMS_def mergeInto_def merge.simps Let_def)

section \<open>A fresh instance\<close>




end
